theory Spec2Isabelle
  imports Complex_Main
begin

section \<open>Strings and the regular expressions of the source\<close>

text \<open>
  A JavaScript string is modelled as a \<^typ>\<open>string\<close>: a list of code units below 256
  (Latin-1). Case mapping is modelled on the ASCII letters only, and the model leaves
  every other code unit as it is, where JavaScript also maps the letters of Latin-1 (the
  sharp s to two letters): \<open>toLowerCase\<close> and \<open>toUpperCase\<close> are those of the program on ASCII
  strings, and no statement below evaluates them on another string.
\<close>

definition code :: "char \<Rightarrow> nat" where
  "code c = of_char c"

definition is_digit :: "char \<Rightarrow> bool" where
  \<comment> \<open>the class \<open>\d\<close>\<close>
  "is_digit c = (48 \<le> code c \<and> code c \<le> 57)"

definition is_space :: "char \<Rightarrow> bool" where
  \<comment> \<open>the class \<open>\s\<close> below 256: tab, line feed, vertical tab, form feed, carriage return,
      space, no-break space\<close>
  "is_space c = (code c \<in> {9, 10, 11, 12, 13, 32, 160})"

definition is_lower :: "char \<Rightarrow> bool" where
  "is_lower c = (97 \<le> code c \<and> code c \<le> 122)"

definition is_upper :: "char \<Rightarrow> bool" where
  "is_upper c = (65 \<le> code c \<and> code c \<le> 90)"

definition toLowerCase :: "string \<Rightarrow> string" where
  "toLowerCase s = map (\<lambda>c. if is_upper c then char_of (code c + 32) else c) s"

definition toUpperCase :: "string \<Rightarrow> string" where
  "toUpperCase s = map (\<lambda>c. if is_lower c then char_of (code c - 32) else c) s"

definition startsWith :: "string \<Rightarrow> string \<Rightarrow> bool" where
  "startsWith s p = (take (length p) s = p)"

fun includes_str :: "string \<Rightarrow> string \<Rightarrow> bool" where
  \<comment> \<open>\<open>s.includes(p)\<close>\<close>
  "includes_str [] p = (p = [])"
| "includes_str (c # s) p = (startsWith (c # s) p \<or> includes_str s p)"

definition includes_i :: "string \<Rightarrow> string \<Rightarrow> bool" where
  \<comment> \<open>the test \<open>/p/i\<close> for a pattern \<open>p\<close> of plain letters\<close>
  "includes_i s p = includes_str (toLowerCase s) (toLowerCase p)"

text \<open>
  The regular expressions that the source writes, as a datatype, and a backtracking
  matcher: \<open>rx_run r s\<close> lists what is left of \<open>s\<close> after each way of matching \<open>r\<close> at
  its start. \<open>Rep m n r\<close> is \<open>r{m,n}\<close>.
\<close>

datatype rx =
    Chr char
  | Rng char char
  | Dig
  | Seq rx rx
  | Alt rx rx
  | Opt rx
  | Rep nat nat rx

primrec rx_pow :: "nat \<Rightarrow> (string \<Rightarrow> string list) \<Rightarrow> string list \<Rightarrow> string list" where
  "rx_pow 0 f ss = ss"
| "rx_pow (Suc k) f ss = rx_pow k f (concat (map f ss))"

definition rx_one :: "(char \<Rightarrow> bool) \<Rightarrow> string \<Rightarrow> string list" where
  "rx_one p s = (case s of [] \<Rightarrow> [] | c # t \<Rightarrow> if p c then [t] else [])"

fun rx_run :: "rx \<Rightarrow> string \<Rightarrow> string list" where
  "rx_run (Chr a) s = rx_one (\<lambda>c. c = a) s"
| "rx_run (Rng a b) s = rx_one (\<lambda>c. code a \<le> code c \<and> code c \<le> code b) s"
| "rx_run Dig s = rx_one is_digit s"
| "rx_run (Seq a b) s = concat (map (\<lambda>t. rx_run b t) (rx_run a s))"
| "rx_run (Alt a b) s = rx_run a s @ rx_run b s"
| "rx_run (Opt a) s = rx_run a s @ [s]"
| "rx_run (Rep m n a) s = concat (map (\<lambda>k. rx_pow k (\<lambda>t. rx_run a t) [s]) [m..<Suc n])"

definition rx_test :: "rx \<Rightarrow> string \<Rightarrow> bool" where
  \<comment> \<open>\<open>/^r$/.test(s)\<close>\<close>
  "rx_test r s = ([] \<in> set (rx_run r s))"

definition cat :: "rx list \<Rightarrow> rx" where
  \<comment> \<open>a sequence of two or more parts\<close>
  "cat rs = foldr Seq (butlast rs) (last rs)"

definition alt :: "rx list \<Rightarrow> rx" where
  \<comment> \<open>two or more alternatives \<open>a|b|...\<close>\<close>
  "alt rs = foldr Alt (butlast rs) (last rs)"

definition digits_n :: "nat \<Rightarrow> rx" where
  \<comment> \<open>\<open>\d{n}\<close>\<close>
  "digits_n n = Rep n n Dig"

section \<open>Card validation (server side)\<close>

definition strip_ws :: "string \<Rightarrow> string" where
  \<comment> \<open>\<open>cardNumber.replace(/\s+/g, "")\<close>\<close>
  "strip_ws s = filter (\<lambda>c. \<not> is_space c) s"

definition parseInt :: "char \<Rightarrow> nat" where
  \<comment> \<open>\<open>parseInt(d, 10)\<close> of a one-digit string\<close>
  "parseInt c = code c - 48"

primrec luhn_loop :: "string \<Rightarrow> nat \<Rightarrow> nat \<Rightarrow> bool \<Rightarrow> nat" where
  \<comment> \<open>the \<open>for\<close> loop with \<open>i + 1 = k\<close>: it ends when \<open>i\<close> falls below 0; \<open>sm\<close> is the source's \<open>sum\<close>\<close>
  "luhn_loop digits 0 sm shouldDouble = sm"
| "luhn_loop digits (Suc i) sm shouldDouble =
     (let digit = parseInt (digits ! i);
          digit = (if shouldDouble
                   then (let d2 = digit * 2 in if d2 > 9 then d2 - 9 else d2)
                   else digit)
      in luhn_loop digits i (sm + digit) (\<not> shouldDouble))"

definition passesLuhn :: "string \<Rightarrow> bool" where
  "passesLuhn cardNumber =
     (let digits = strip_ws cardNumber in
      if \<not> rx_test (Rep 13 19 Dig) digits then False
      else luhn_loop digits (length digits) 0 False mod 10 = 0)"

datatype CardType = visa | mastercard | amex | discover | jcb

definition visa_rx :: rx where
  \<comment> \<open>\<open>/^4\d{12}(\d{3})?(\d{3})?$/\<close>\<close>
  "visa_rx = cat [Chr CHR ''4'', digits_n 12, Opt (digits_n 3), Opt (digits_n 3)]"

definition mastercard_old_rx :: rx where
  \<comment> \<open>\<open>/^5[1-5]\d{14}$/\<close>\<close>
  "mastercard_old_rx = cat [Chr CHR ''5'', Rng CHR ''1'' CHR ''5'', digits_n 14]"

definition mastercard_new_rx :: rx where
  \<comment> \<open>\<open>/^2(2[2-9]\d{2}|[3-6]\d{3}|7[01]\d{2}|720\d{2})\d{10}$/\<close>\<close>
  "mastercard_new_rx =
     cat [Chr CHR ''2'',
          alt [cat [Chr CHR ''2'', Rng CHR ''2'' CHR ''9'', digits_n 2],
               cat [Rng CHR ''3'' CHR ''6'', digits_n 3],
               cat [Chr CHR ''7'', Rng CHR ''0'' CHR ''1'', digits_n 2],
               cat [Chr CHR ''7'', Chr CHR ''2'', Chr CHR ''0'', digits_n 2]],
          digits_n 10]"

definition amex_rx :: rx where
  \<comment> \<open>\<open>/^3[47]\d{13}$/\<close>\<close>
  "amex_rx = cat [Chr CHR ''3'', alt [Chr CHR ''4'', Chr CHR ''7''], digits_n 13]"

definition discover_rx :: rx where
  \<comment> \<open>\<open>/^6(?:011|5\d{2}|4[4-9]\d)\d{12}$/\<close>\<close>
  "discover_rx =
     cat [Chr CHR ''6'',
          alt [cat [Chr CHR ''0'', Chr CHR ''1'', Chr CHR ''1''],
               cat [Chr CHR ''5'', digits_n 2],
               cat [Chr CHR ''4'', Rng CHR ''4'' CHR ''9'', Dig]],
          digits_n 12]"

definition jcb_rx :: rx where
  \<comment> \<open>\<open>/^35(2[89]|[3-8]\d)\d{12}$/\<close>\<close>
  "jcb_rx =
     cat [Chr CHR ''3'', Chr CHR ''5'',
          alt [cat [Chr CHR ''2'', Rng CHR ''8'' CHR ''9''],
               cat [Rng CHR ''3'' CHR ''8'', Dig]],
          digits_n 12]"

definition detectCardType :: "string \<Rightarrow> CardType option" where
  "detectCardType cardNumber =
     (let digits = strip_ws cardNumber in
      if rx_test visa_rx digits then Some visa
      else if rx_test mastercard_old_rx digits \<or> rx_test mastercard_new_rx digits
        then Some mastercard
      else if rx_test amex_rx digits then Some amex
      else if rx_test discover_rx digits then Some discover
      else if rx_test jcb_rx digits then Some jcb
      else None)"

section \<open>Card validation (funding form, client side)\<close>

text \<open>The copies of the two functions in \<^verbatim>\<open>FundingModal.tsx\<close>, translated on their own.\<close>

primrec client_luhn_loop :: "string \<Rightarrow> nat \<Rightarrow> nat \<Rightarrow> bool \<Rightarrow> nat" where
  "client_luhn_loop digits 0 sm shouldDouble = sm"
| "client_luhn_loop digits (Suc i) sm shouldDouble =
     (let digit = parseInt (digits ! i);
          digit = (if shouldDouble
                   then (let d2 = digit * 2 in if d2 > 9 then d2 - 9 else d2)
                   else digit)
      in client_luhn_loop digits i (sm + digit) (\<not> shouldDouble))"

definition client_passesLuhn :: "string \<Rightarrow> bool" where
  "client_passesLuhn cardNumber =
     (let digits = strip_ws cardNumber in
      if \<not> rx_test (Rep 13 19 Dig) digits then False
      else client_luhn_loop digits (length digits) 0 False mod 10 = 0)"

definition client_detectCardType :: "string \<Rightarrow> CardType option" where
  "client_detectCardType cardNumber =
     (let digits = strip_ws cardNumber in
      if rx_test (cat [Chr CHR ''4'', digits_n 12, Opt (digits_n 3), Opt (digits_n 3)]) digits
        then Some visa
      else if rx_test (cat [Chr CHR ''5'', Rng CHR ''1'' CHR ''5'', digits_n 14]) digits \<or>
              rx_test
                (cat [Chr CHR ''2'',
                      alt [cat [Chr CHR ''2'', Rng CHR ''2'' CHR ''9'', digits_n 2],
                           cat [Rng CHR ''3'' CHR ''6'', digits_n 3],
                           cat [Chr CHR ''7'', Rng CHR ''0'' CHR ''1'', digits_n 2],
                           cat [Chr CHR ''7'', Chr CHR ''2'', Chr CHR ''0'', digits_n 2]],
                      digits_n 10]) digits
        then Some mastercard
      else if rx_test (cat [Chr CHR ''3'', alt [Chr CHR ''4'', Chr CHR ''7''], digits_n 13]) digits
        then Some amex
      else if rx_test
                (cat [Chr CHR ''6'',
                      alt [cat [Chr CHR ''0'', Chr CHR ''1'', Chr CHR ''1''],
                           cat [Chr CHR ''5'', digits_n 2],
                           cat [Chr CHR ''4'', Rng CHR ''4'' CHR ''9'', Dig]],
                      digits_n 12]) digits
        then Some discover
      else if rx_test
                (cat [Chr CHR ''3'', Chr CHR ''5'',
                      alt [cat [Chr CHR ''2'', Rng CHR ''8'' CHR ''9''],
                           cat [Rng CHR ''3'' CHR ''8'', Dig]],
                      digits_n 12]) digits
        then Some jcb
      else None)"

datatype validate_result = Valid | Invalid_with string

definition validCard :: "string \<Rightarrow> string \<Rightarrow> validate_result" where
  \<comment> \<open>the \<open>validate.validCard\<close> rule of the card number field\<close>
  "validCard fundingType v =
     (if fundingType \<noteq> ''card'' then Valid
      else if \<not> client_passesLuhn v then Invalid_with ''Card number failed validation''
      else if client_detectCardType v = None then Invalid_with ''Unsupported or unknown card type''
      else Valid)"

definition accountNumber_rules :: "string \<Rightarrow> string \<Rightarrow> string option" where
  \<comment> \<open>the rules that the form registers for the \<open>accountNumber\<close> field, \<open>required\<close>, then
      \<open>pattern\<close> (\<open>/^\d{13,19}$/\<close> for a card, \<open>/^\d+$/\<close> for a bank account), then
      \<open>validate\<close>: the message of the first rule that fails on the raw value, \<open>None\<close> when
      the field is accepted\<close>
  "accountNumber_rules fundingType v =
     (if v = []
      then Some ((if fundingType = ''card'' then ''Card'' else ''Account'') @ '' number is required'')
      else if \<not> (if fundingType = ''card'' then rx_test (Rep 13 19 Dig) v
                  else v \<noteq> [] \<and> list_all is_digit v)
      then Some (if fundingType = ''card'' then ''Card number must be between 13 and 19 digits''
                 else ''Invalid account number'')
      else case validCard fundingType v of
             Valid \<Rightarrow> None
           | Invalid_with m \<Rightarrow> Some m)"

section \<open>The card validator in the specification's words\<close>

text \<open>
  The checksum and the table of brands as the specification words them, to compare the
  code with. These definitions use none of the definitions above: they have their own
  whitespace, their own digits and their own prefixes.
\<close>

definition spec_whitespace :: "char list" where
  \<comment> \<open>tab, line feed, vertical tab, form feed, carriage return, space, no-break space\<close>
  "spec_whitespace = [CHR 0x09, CHR 0x0A, CHR 0x0B, CHR 0x0C, CHR 0x0D, CHR '' '', CHR 0xA0]"

primrec spec_strip :: "string \<Rightarrow> string" where
  \<comment> \<open>``strip whitespace''\<close>
  "spec_strip [] = []"
| "spec_strip (c # s) = (if c \<in> set spec_whitespace then spec_strip s else c # spec_strip s)"

definition spec_digit :: "char \<Rightarrow> nat option" where
  "spec_digit c = map_of (zip ''0123456789'' [0 ..< 10]) c"

primrec spec_digits :: "string \<Rightarrow> nat list option" where
  \<comment> \<open>the digits of a string of digits, \<open>None\<close> for any other string\<close>
  "spec_digits [] = Some []"
| "spec_digits (c # s) =
     (case spec_digit c of
        None \<Rightarrow> None
      | Some d \<Rightarrow> (case spec_digits s of None \<Rightarrow> None | Some ds \<Rightarrow> Some (d # ds)))"

definition luhn_value :: "nat \<Rightarrow> nat \<Rightarrow> nat" where
  \<comment> \<open>the contribution of digit \<open>d\<close> at position \<open>pos\<close>, counted from the rightmost digit
      (position 0): every second digit is doubled, and 9 is taken off a two-digit double\<close>
  "luhn_value pos d = (if odd pos then (if 2 * d > 9 then 2 * d - 9 else 2 * d) else d)"

definition luhn_spec :: "string \<Rightarrow> bool" where
  \<comment> \<open>``strip whitespace; require 13--19 digits; apply the standard alternating-doubling
      checksum from the rightmost digit; valid iff the digit sum is divisible by 10''\<close>
  "luhn_spec cardNumber =
     (case spec_digits (spec_strip cardNumber) of
        None \<Rightarrow> False
      | Some ds \<Rightarrow>
          13 \<le> length ds \<and> length ds \<le> 19 \<and>
          (\<Sum>pos<length ds. luhn_value pos (rev ds ! pos)) mod 10 = 0)"

definition spec_number :: "nat list \<Rightarrow> nat" where
  \<comment> \<open>the number that a list of digits writes\<close>
  "spec_number ds = foldl (\<lambda>n d. 10 * n + d) 0 ds"

definition prefix_in :: "nat list \<Rightarrow> nat \<Rightarrow> nat \<Rightarrow> nat \<Rightarrow> bool" where
  \<comment> \<open>the first \<open>k\<close> digits write a number from \<open>lo\<close> to \<open>hi\<close>\<close>
  "prefix_in ds k lo hi =
     (k \<le> length ds \<and> lo \<le> spec_number (take k ds) \<and> spec_number (take k ds) \<le> hi)"

definition spec_brand :: "string \<Rightarrow> CardType option" where
  \<comment> \<open>``Visa: leads with 4, 13/16/19 digits; Mastercard: 51--55 or 2221--2720 prefixes, 16
      digits; Amex: 34/37 prefix, 15 digits; Discover: 6011/65/644--649 prefixes, 16 digits;
      JCB: 3528--3589 prefix, 16 digits. Unrecognized prefix/length combination: no brand'',
      read on the digits that the checksum reads\<close>
  "spec_brand cardNumber =
     (case spec_digits (spec_strip cardNumber) of
        None \<Rightarrow> None
      | Some ds \<Rightarrow>
          if prefix_in ds 1 4 4 \<and> length ds \<in> {13, 16, 19} then Some visa
          else if (prefix_in ds 2 51 55 \<or> prefix_in ds 4 2221 2720) \<and> length ds = 16
            then Some mastercard
          else if (prefix_in ds 2 34 34 \<or> prefix_in ds 2 37 37) \<and> length ds = 15
            then Some amex
          else if (prefix_in ds 4 6011 6011 \<or> prefix_in ds 2 65 65 \<or> prefix_in ds 3 644 649) \<and>
                  length ds = 16
            then Some discover
          else if prefix_in ds 4 3528 3589 \<and> length ds = 16 then Some jcb
          else None)"

section \<open>Request validation of the funding source\<close>

text \<open>
  A validation issue carries the path of the field and the message. \<open>Issue_default\<close> is
  an issue whose message is the validation library's own (the source gives none).
  All checks and refinements of a field run, and every failure adds its issue.
\<close>

datatype issue = Issue "string list" string | Issue_default "string list"

fun issue_message :: "issue \<Rightarrow> string option" where
  "issue_message (Issue p m) = Some m"
| "issue_message (Issue_default p) = None"

record FundingSource =
  fs_type :: string
  fs_accountNumber :: string
  fs_routingNumber :: "string option"

definition cardFundingSchema :: "FundingSource \<Rightarrow> issue list" where
  "cardFundingSchema fs =
     (if passesLuhn (fs_accountNumber fs) then []
      else [Issue [''fundingSource'', ''accountNumber''] ''Card number is invalid'']) @
     (if detectCardType (fs_accountNumber fs) \<noteq> None then []
      else [Issue [''fundingSource'', ''accountNumber''] ''Unsupported or unknown card type''])"

definition bankFundingSchema :: "FundingSource \<Rightarrow> issue list" where
  "bankFundingSchema fs =
     (case fs_routingNumber fs of
        None \<Rightarrow> [Issue_default [''fundingSource'', ''routingNumber'']]
      | Some r \<Rightarrow>
          if rx_test (digits_n 9) r then []
          else [Issue [''fundingSource'', ''routingNumber''] ''Routing number must be 9 digits''])"

definition fundingSourceSchema :: "FundingSource \<Rightarrow> issue list" where
  \<comment> \<open>the union discriminated by \<open>type\<close>\<close>
  "fundingSourceSchema fs =
     (if fs_type fs = ''card'' then cardFundingSchema fs
      else if fs_type fs = ''bank'' then bankFundingSchema fs
      else [Issue_default [''fundingSource'', ''type'']])"

section \<open>The store\<close>

text \<open>
  The four tables, each a list of rows in insertion order. A JavaScript number is
  modelled as a real: the model adds exactly where the program adds doubles and rounds,
  so the balance of the model is that of the program only where the sum is representable
  (as it is for the whole amounts of the examples below). Times are clock readings in
  whole seconds.
\<close>

record PublicUser =
  user_id :: nat
  user_email :: string
  user_firstName :: string
  user_lastName :: string
  user_phoneNumber :: string
  user_dateOfBirth :: string
  user_ssn :: string
  user_address :: string
  user_city :: string
  user_state :: string
  user_zipCode :: string

record User = PublicUser +
  user_password :: string

record Session =
  session_id :: nat
  session_userId :: nat
  session_token :: string
  session_expiresAt :: nat

record Account =
  account_id :: nat
  account_userId :: nat
  account_accountNumber :: string
  account_accountType :: string
  account_balance :: real
  account_status :: string

record Transaction =
  tx_id :: nat
  tx_accountId :: nat
  tx_type :: string
  tx_amount :: real
  tx_description :: string
  tx_status :: string
  tx_createdAt :: nat
  tx_processedAt :: nat

record DB =
  users :: "User list"
  sessions :: "Session list"
  accounts :: "Account list"
  transactions :: "Transaction list"

definition next_id :: "nat list \<Rightarrow> nat" where
  \<comment> \<open>the row id the store gives to an inserted row\<close>
  "next_id ids = Suc (foldr max ids 0)"

datatype code = BAD_REQUEST | UNAUTHORIZED | NOT_FOUND | CONFLICT | INTERNAL_SERVER_ERROR

datatype error =
    TRPCError code string
  | ZodError "issue list"  \<comment> \<open>the input failed its schema; the handler did not run\<close>

text \<open>
  What the handlers take from outside the repository: the validation library's address
  check, the date library, the password hash, the token mint and the clock. The token
  mint signs the payload \<open>{userId, iat, exp}\<close> with a fixed secret, \<open>iat\<close> being the clock
  in whole seconds and \<open>exp\<close> seven days later: it is a function of the user id and of
  the second of issue.
\<close>

record Date =
  getTime :: int
  getFullYear :: int
  getMonth :: int
  getDate :: int

record env =
  zod_email :: "string \<Rightarrow> bool"
  Date_parse :: "string \<Rightarrow> Date option"  \<comment> \<open>\<open>new Date(value)\<close>; \<open>None\<close> when its time is NaN\<close>
  Date_today :: Date                        \<comment> \<open>\<open>new Date()\<close>\<close>
  bcrypt_hash :: "string \<Rightarrow> nat \<Rightarrow> string"
  bcrypt_compare :: "string \<Rightarrow> string \<Rightarrow> bool"
  jwt_sign :: "nat \<Rightarrow> nat \<Rightarrow> string"
  clock :: nat

section \<open>Signup, login, logout\<close>

definition dateOfBirth_ok :: "env \<Rightarrow> string \<Rightarrow> bool" where
  \<comment> \<open>the refinement of \<open>dateOfBirthSchema\<close>\<close>
  "dateOfBirth_ok E v =
     (case Date_parse E v of
        None \<Rightarrow> False
      | Some dob \<Rightarrow>
          let today = Date_today E in
          if getTime dob > getTime today then False
          else
            let age = getFullYear today - getFullYear dob;
                hasHadBirthdayThisYear =
                  (getMonth today > getMonth dob \<or>
                   (getMonth today = getMonth dob \<and> getDate today \<ge> getDate dob));
                age = (if \<not> hasHadBirthdayThisYear then age - 1 else age)
            in age \<ge> 18)"

definition check :: "bool \<Rightarrow> issue \<Rightarrow> issue list" where
  "check ok i = (if ok then [] else [i])"

definition passwordSchema :: "string list \<Rightarrow> string \<Rightarrow> issue list" where
  "passwordSchema p v =
     check (length v \<ge> 8) (Issue p ''Password must be at least 8 characters long'') @
     check (list_ex is_lower v) (Issue p ''Password must contain at least one lowercase letter'') @
     check (list_ex is_upper v) (Issue p ''Password must contain at least one uppercase letter'') @
     check (list_ex is_digit v) (Issue p ''Password must contain at least one number'') @
     check (list_ex (\<lambda>c. \<not> (is_upper c \<or> is_lower c \<or> is_digit c)) v)
       (Issue p ''Password must contain at least one special character'')"

record SignupInput =
  su_email :: string
  su_password :: string
  su_firstName :: string
  su_lastName :: string
  su_phoneNumber :: string
  su_dateOfBirth :: string
  su_ssn :: string
  su_address :: string
  su_city :: string
  su_state :: string
  su_zipCode :: string

definition signup_issues :: "env \<Rightarrow> SignupInput \<Rightarrow> issue list" where
  \<comment> \<open>the issues of all fields, listed field by field; the order in which the library
      lists them is not modelled, and no statement below depends on it\<close>
  "signup_issues E i =
     check (zod_email E (su_email i)) (Issue_default [''email'']) @
     passwordSchema [''password''] (su_password i) @
     check (length (su_firstName i) \<ge> 1) (Issue_default [''firstName'']) @
     check (length (su_lastName i) \<ge> 1) (Issue_default [''lastName'']) @
     check (rx_test (Seq (Opt (Chr CHR ''+'')) (Rep 10 15 Dig)) (su_phoneNumber i))
       (Issue_default [''phoneNumber'']) @
     check (dateOfBirth_ok E (su_dateOfBirth i))
       (Issue [''dateOfBirth''] ''You must be at least 18 years old'') @
     check (rx_test (digits_n 9) (su_ssn i)) (Issue_default [''ssn'']) @
     check (length (su_address i) \<ge> 1) (Issue_default [''address'']) @
     check (length (su_city i) \<ge> 1) (Issue_default [''city'']) @
     check (length (su_state i) = 2) (Issue_default [''state'']) @
     check (rx_test (digits_n 5) (su_zipCode i)) (Issue_default [''zipCode''])"

definition signup_parse :: "env \<Rightarrow> SignupInput \<Rightarrow> error + SignupInput" where
  \<comment> \<open>the input schema of \<open>signup\<close>: the issues, or the input with the address in lower
      case and the state in upper case\<close>
  "signup_parse E i =
     (case signup_issues E i of
        [] \<Rightarrow> Inr (i\<lparr>su_email := toLowerCase (su_email i), su_state := toUpperCase (su_state i)\<rparr>)
      | x # xs \<Rightarrow> Inl (ZodError (x # xs)))"

record AuthResult =
  auth_user :: PublicUser  \<comment> \<open>the user row with \<open>password: undefined\<close>\<close>
  auth_token :: string
  auth_cookie :: string    \<comment> \<open>the \<open>Set-Cookie\<close> header of the response\<close>

definition session_cookie :: "string \<Rightarrow> string" where
  "session_cookie token =
     ''session='' @ token @ ''; Path=/; HttpOnly; SameSite=Strict; Max-Age=604800''"

definition insert_session :: "DB \<Rightarrow> nat \<Rightarrow> string \<Rightarrow> nat \<Rightarrow> error + DB" where
  \<comment> \<open>Modelled from the spec: the schema of the session table is not among the sources; the
      spec gives the token as unique, so the insert of a token that a row holds throws.\<close>
  "insert_session db userId token expiresAt =
     (if token \<in> set (map session_token (sessions db))
      then Inl (TRPCError INTERNAL_SERVER_ERROR ''UNIQUE constraint failed: sessions.token'')
      else Inr (db\<lparr>sessions := sessions db @
             [\<lparr>session_id = next_id (map session_id (sessions db)), session_userId = userId,
               session_token = token, session_expiresAt = expiresAt\<rparr>]\<rparr>))"

definition create_session :: "env \<Rightarrow> DB \<Rightarrow> User \<Rightarrow> error + DB \<times> AuthResult" where
  \<comment> \<open>the end of both \<open>signup\<close> and \<open>login\<close>, from the delete of the user's sessions on\<close>
  "create_session E db user =
     (let db1 = db\<lparr>sessions := filter (\<lambda>s. session_userId s \<noteq> user_id user) (sessions db)\<rparr>;
          token = jwt_sign E (user_id user) (clock E);
          expiresAt = clock E + 7 * 86400
      in case insert_session db1 (user_id user) token expiresAt of
           Inl e \<Rightarrow> Inl e
         | Inr db2 \<Rightarrow>
             Inr (db2, \<lparr>auth_user = PublicUser.truncate user, auth_token = token,
                        auth_cookie = session_cookie token\<rparr>))"

definition signup :: "env \<Rightarrow> DB \<Rightarrow> SignupInput \<Rightarrow> error + DB \<times> AuthResult" where
  "signup E db raw =
     (case signup_parse E raw of
        Inl e \<Rightarrow> Inl e
      | Inr input \<Rightarrow>
          (case find (\<lambda>u. user_email u = su_email input) (users db) of
             Some existingUser \<Rightarrow> Inl (TRPCError CONFLICT ''User already exists'')
           | None \<Rightarrow>
               let hashedPassword = bcrypt_hash E (su_password input) 10;
                   hashedSSN = bcrypt_hash E (su_ssn input) 12;
                   db1 = db\<lparr>users := users db @
                     [\<lparr>user_id = next_id (map user_id (users db)),
                       user_email = su_email input,
                       user_firstName = su_firstName input,
                       user_lastName = su_lastName input,
                       user_phoneNumber = su_phoneNumber input,
                       user_dateOfBirth = su_dateOfBirth input,
                       user_ssn = hashedSSN,
                       user_address = su_address input,
                       user_city = su_city input,
                       user_state = su_state input,
                       user_zipCode = su_zipCode input,
                       user_password = hashedPassword\<rparr>]\<rparr>
               in case find (\<lambda>u. user_email u = su_email input) (users db1) of
                    None \<Rightarrow> Inl (TRPCError INTERNAL_SERVER_ERROR ''Failed to create user'')
                  | Some user \<Rightarrow> create_session E db1 user))"

definition new_user :: "env \<Rightarrow> DB \<Rightarrow> SignupInput \<Rightarrow> User" where
  \<comment> \<open>the row that \<open>signup\<close> inserts for a parsed input\<close>
  "new_user E db input =
     \<lparr>user_id = next_id (map user_id (users db)),
      user_email = su_email input,
      user_firstName = su_firstName input,
      user_lastName = su_lastName input,
      user_phoneNumber = su_phoneNumber input,
      user_dateOfBirth = su_dateOfBirth input,
      user_ssn = bcrypt_hash E (su_ssn input) 12,
      user_address = su_address input,
      user_city = su_city input,
      user_state = su_state input,
      user_zipCode = su_zipCode input,
      user_password = bcrypt_hash E (su_password input) 10\<rparr>"

record LoginInput =
  li_email :: string
  li_password :: string

definition login :: "env \<Rightarrow> DB \<Rightarrow> LoginInput \<Rightarrow> error + DB \<times> AuthResult" where
  "login E db input =
     (if \<not> zod_email E (li_email input) then Inl (ZodError [Issue_default [''email'']])
      else
        case find (\<lambda>u. user_email u = li_email input) (users db) of
          None \<Rightarrow> Inl (TRPCError UNAUTHORIZED ''Invalid credentials'')
        | Some user \<Rightarrow>
            let validPassword = bcrypt_compare E (li_password input) (user_password user) in
            if \<not> validPassword then Inl (TRPCError UNAUTHORIZED ''Invalid credentials'')
            else create_session E db user)"

text \<open>
  The request of \<open>logout\<close> either has a \<open>cookies\<close> object (its \<open>session\<close> entry, if any)
  or only headers (its \<open>cookie\<close> header, if any).
\<close>

datatype Request = Cookies "string option" | Headers "string option"

record Context =
  ctx_user :: "User option"
  ctx_req :: Request

fun split_semi :: "string \<Rightarrow> string \<Rightarrow> string list" where
  \<comment> \<open>\<open>s.split("; ")\<close>, with the piece read so far (reversed) as first argument\<close>
  "split_semi piece [] = [rev piece]"
| "split_semi piece [c] = [rev (c # piece)]"
| "split_semi piece (c # d # s) =
     (if c = CHR '';'' \<and> d = CHR '' '' then rev piece # split_semi [] s
      else split_semi (c # piece) (d # s))"

fun split_eq :: "string \<Rightarrow> string \<Rightarrow> string list" where
  \<comment> \<open>\<open>s.split("=")\<close>\<close>
  "split_eq piece [] = [rev piece]"
| "split_eq piece (c # s) =
     (if c = CHR ''='' then rev piece # split_eq [] s else split_eq (c # piece) s)"

definition request_token :: "Request \<Rightarrow> string option" where
  "request_token req =
     (case req of
        Cookies session \<Rightarrow> session
      | Headers None \<Rightarrow> None
      | Headers (Some cookieHeader) \<Rightarrow>
          (case find (\<lambda>c. startsWith c ''session='') (split_semi [] cookieHeader) of
             None \<Rightarrow> None
           | Some c \<Rightarrow>
               (case split_eq [] c of
                  a # b # rest \<Rightarrow> Some b
                | _ \<Rightarrow> None)))"

record LogoutResult =
  success :: bool
  message :: string
  logout_cookie :: string

definition truthy :: "string option \<Rightarrow> bool" where
  \<comment> \<open>\<open>if (token)\<close>: neither undefined nor the empty string\<close>
  "truthy t = (case t of None \<Rightarrow> False | Some s \<Rightarrow> s \<noteq> [])"

definition logout :: "DB \<Rightarrow> Context \<Rightarrow> DB \<times> LogoutResult" where
  "logout db ctx =
     (let db1 =
        (if ctx_user ctx \<noteq> None then
           (let token = request_token (ctx_req ctx) in
            if truthy token
            then db\<lparr>sessions := filter (\<lambda>s. Some (session_token s) \<noteq> token) (sessions db)\<rparr>
            else db)
         else db)
      in (db1,
          \<lparr>success = True,
           message = (if ctx_user ctx \<noteq> None then ''Logged out successfully''
                      else ''No active session''),
           logout_cookie = ''session=; Path=/; HttpOnly; SameSite=Strict; Max-Age=0''\<rparr>))"

section \<open>Funding an account and listing its transactions\<close>

record FundInput =
  fi_accountId :: nat
  fi_amount :: real
  fi_fundingSource :: FundingSource

definition fundAccount_issues :: "FundInput \<Rightarrow> issue list" where
  "fundAccount_issues i =
     check (fi_amount i > 0) (Issue_default [''amount'']) @
     check (fi_amount i \<ge> 0.01) (Issue [''amount''] ''Amount must be at least $0.01'') @
     fundingSourceSchema (fi_fundingSource i)"

record FundResult =
  fr_transaction :: "Transaction option"
  fr_newBalance :: real

definition first_by_createdAt :: "Transaction list \<Rightarrow> Transaction option" where
  \<comment> \<open>\<open>select().from(transactions).orderBy(transactions.createdAt).limit(1).get()\<close>:
      ascending order, rows of equal time in the order of the table\<close>
  "first_by_createdAt txs =
     (case sort_key tx_createdAt txs of [] \<Rightarrow> None | t # ts \<Rightarrow> Some t)"

definition fundAccount :: "env \<Rightarrow> DB \<Rightarrow> User \<Rightarrow> FundInput \<Rightarrow> error + DB \<times> FundResult" where
  \<comment> \<open>\<open>user\<close> is the caller, \<open>ctx.user\<close>; \<open>parseFloat(input.amount.toString())\<close> is the amount
      itself\<close>
  "fundAccount E db user input =
     (case fundAccount_issues input of
        x # xs \<Rightarrow> Inl (ZodError (x # xs))
      | [] \<Rightarrow>
          let amount = fi_amount input in
          case find (\<lambda>a. account_id a = fi_accountId input \<and> account_userId a = user_id user)
                 (accounts db) of
            None \<Rightarrow> Inl (TRPCError NOT_FOUND ''Account not found'')
          | Some account \<Rightarrow>
              if account_status account \<noteq> ''active''
              then Inl (TRPCError BAD_REQUEST ''Account is not active'')
              else
                let db1 = db\<lparr>transactions := transactions db @
                      [\<lparr>tx_id = next_id (map tx_id (transactions db)),
                        tx_accountId = fi_accountId input,
                        tx_type = ''deposit'',
                        tx_amount = amount,
                        tx_description = ''Funding from '' @ fs_type (fi_fundingSource input),
                        tx_status = ''completed'',
                        tx_createdAt = clock E,
                        tx_processedAt = clock E\<rparr>]\<rparr>;
                    transaction = first_by_createdAt (transactions db1);
                    db2 = db1\<lparr>accounts :=
                      map (\<lambda>a. if account_id a = fi_accountId input
                                then a\<lparr>account_balance := account_balance account + amount\<rparr>
                                else a)
                        (accounts db1)\<rparr>
                in case find (\<lambda>a. account_id a = fi_accountId input) (accounts db2) of
                     None \<Rightarrow>
                       Inl (TRPCError INTERNAL_SERVER_ERROR ''Failed to load updated account balance'')
                   | Some updatedAccount \<Rightarrow>
                       Inr (db2, \<lparr>fr_transaction = transaction,
                                  fr_newBalance = account_balance updatedAccount\<rparr>))"

definition new_deposit :: "env \<Rightarrow> DB \<Rightarrow> FundInput \<Rightarrow> Transaction" where
  \<comment> \<open>the row that \<open>fundAccount\<close> inserts\<close>
  "new_deposit E db i =
     \<lparr>tx_id = next_id (map tx_id (transactions db)),
      tx_accountId = fi_accountId i,
      tx_type = ''deposit'',
      tx_amount = fi_amount i,
      tx_description = ''Funding from '' @ fs_type (fi_fundingSource i),
      tx_status = ''completed'',
      tx_createdAt = clock E,
      tx_processedAt = clock E\<rparr>"

record EnrichedTransaction = Transaction +
  accountType :: "string option"

definition getTransactions :: "DB \<Rightarrow> User \<Rightarrow> nat \<Rightarrow> error + EnrichedTransaction list" where
  "getTransactions db user accountId =
     (case find (\<lambda>a. account_id a = accountId \<and> account_userId a = user_id user) (accounts db) of
        None \<Rightarrow> Inl (TRPCError NOT_FOUND ''Account not found'')
      | Some account \<Rightarrow>
          let accountTransactions = filter (\<lambda>t. tx_accountId t = accountId) (transactions db)
          in Inr (map (\<lambda>transaction.
                    let accountDetails =
                          find (\<lambda>a. account_id a = tx_accountId transaction) (accounts db)
                    in Transaction.extend transaction
                         \<lparr>accountType = map_option account_accountType accountDetails\<rparr>)
                  accountTransactions))"

section \<open>Example data\<close>

text \<open>
  A concrete environment and store on which the handlers are run. The functions of
  \<open>example_env\<close> stand in for the libraries: any address with an \<open>@\<close> is well formed,
  one date of birth parses, a hash is the plain text behind a prefix, and a token spells
  out the user id and the second of issue.
\<close>

definition example_env :: env where
  "example_env =
     \<lparr>zod_email = (\<lambda>s. CHR ''@'' \<in> set s),
      Date_parse = (\<lambda>s. if s = ''1990-01-01''
                          then Some \<lparr>getTime = 631152000000, getFullYear = 1990,
                                     getMonth = 0, getDate = 1\<rparr>
                          else None),
      Date_today = \<lparr>getTime = 1793577600000, getFullYear = 2026, getMonth = 10, getDate = 2\<rparr>,
      bcrypt_hash = (\<lambda>p cost. ''$2a$'' @ p),
      bcrypt_compare = (\<lambda>p h. h = ''$2a$'' @ p),
      jwt_sign = (\<lambda>userId iat. ''jwt.'' @ replicate userId CHR ''u'' @ ''.'' @ replicate iat CHR ''t''),
      clock = 7\<rparr>"

definition empty_db :: DB where
  "empty_db = \<lparr>users = [], sessions = [], accounts = [], transactions = []\<rparr>"

definition test_signup :: "string \<Rightarrow> string \<Rightarrow> SignupInput" where
  \<comment> \<open>the signup input of the repository's tests, for a given address and state\<close>
  "test_signup email state =
     \<lparr>su_email = email, su_password = ''Aa1!good!'', su_firstName = ''Test'',
      su_lastName = ''User'', su_phoneNumber = ''+14155550123'', su_dateOfBirth = ''1990-01-01'',
      su_ssn = ''111111111'', su_address = ''123 Main St'', su_city = ''City'',
      su_state = state, su_zipCode = ''07001''\<rparr>"

definition test_user :: User where
  "test_user =
     \<lparr>user_id = 1, user_email = ''multi@example.com'', user_firstName = ''Test'',
      user_lastName = ''User'', user_phoneNumber = ''+14155550123'',
      user_dateOfBirth = ''1990-01-01'', user_ssn = ''$2a$000000000'',
      user_address = ''123 Main St'', user_city = ''Somewhere'', user_state = ''NJ'',
      user_zipCode = ''07001'', user_password = ''$2a$Aa1!good!''\<rparr>"

definition test_account :: Account where
  "test_account =
     \<lparr>account_id = 1, account_userId = 1, account_accountNumber = ''0123456789'',
      account_accountType = ''checking'', account_balance = 10, account_status = ''active''\<rparr>"

definition earlier_deposit :: Transaction where
  "earlier_deposit =
     \<lparr>tx_id = 1, tx_accountId = 1, tx_type = ''deposit'', tx_amount = 10,
      tx_description = ''Funding from card'', tx_status = ''completed'',
      tx_createdAt = 100, tx_processedAt = 100\<rparr>"

definition funded_db :: DB where
  \<comment> \<open>one user with one account that was funded once\<close>
  "funded_db =
     \<lparr>users = [test_user], sessions = [], accounts = [test_account],
      transactions = [earlier_deposit]\<rparr>"

definition card_deposit :: "real \<Rightarrow> string \<Rightarrow> FundInput" where
  "card_deposit amount cardNumber =
     \<lparr>fi_accountId = 1, fi_amount = amount,
      fi_fundingSource =
        \<lparr>fs_type = ''card'', fs_accountNumber = cardNumber, fs_routingNumber = None\<rparr>\<rparr>"

definition script_deposit :: Transaction where
  \<comment> \<open>the row that the test of the transaction list inserts\<close>
  \<open>script_deposit =
     \<lparr>tx_id = 1, tx_accountId = 1, tx_type = ''deposit'', tx_amount = 10,
      tx_description = ''<script>alert("owned")</script>'', tx_status = ''completed'',
      tx_createdAt = 100, tx_processedAt = 100\<rparr>\<close>

definition script_db :: DB where
  "script_db =
     \<lparr>users = [test_user], sessions = [], accounts = [test_account],
      transactions = [script_deposit]\<rparr>"

section \<open>Properties of the card validator\<close>

lemma rx_pow_nil: "rx_pow k f [] = []"
  by (induction k) simp_all

lemma rx_pow_dig:
  "rx_pow k (\<lambda>t. rx_run Dig t) [s] =
     (if k \<le> length s \<and> list_all is_digit (take k s) then [drop k s] else [])"
proof (induction k arbitrary: s)
  case 0
  show ?case by simp
next
  case (Suc k)
  show ?case
  proof (cases s)
    case Nil
    then show ?thesis by (simp add: rx_one_def rx_pow_nil)
  next
    case (Cons c t)
    then show ?thesis using Suc [of t] by (simp add: rx_one_def rx_pow_nil)
  qed
qed

text \<open>\<open>/^\d{m,n}$/\<close> accepts the strings of \<open>m\<close> to \<open>n\<close> digits.\<close>

lemma rx_digits_range:
  "rx_test (Rep m n Dig) s \<longleftrightarrow> list_all is_digit s \<and> m \<le> length s \<and> length s \<le> n"
  unfolding rx_test_def by (auto simp: rx_pow_dig split: if_splits)

text \<open>
  The loop of \<open>passesLuhn\<close>, entered after \<open>p\<close> digits with the flag \<open>odd p\<close>, adds the
  contributions of the \<open>k\<close> digits that are left.
\<close>

lemma luhn_loop_sum:
  "luhn_loop ds k sm (odd p) =
     sm + (\<Sum>j<k. luhn_value (p + j) (parseInt (ds ! (k - 1 - j))))"
proof (induction k arbitrary: sm p)
  case 0
  show ?case by simp
next
  case (Suc k)
  have "luhn_loop ds (Suc k) sm (odd p) =
          luhn_loop ds k (sm + luhn_value p (parseInt (ds ! k))) (odd (Suc p))"
    by (simp add: luhn_value_def Let_def mult.commute)
  also have "\<dots> = sm + luhn_value p (parseInt (ds ! k)) +
          (\<Sum>j<k. luhn_value (Suc p + j) (parseInt (ds ! (k - 1 - j))))"
    by (rule Suc.IH)
  also have "\<dots> = sm + (\<Sum>j<Suc k. luhn_value (p + j) (parseInt (ds ! (Suc k - 1 - j))))"
    by (subst sum.lessThan_Suc_shift) simp
  finally show ?case .
qed

text \<open>
  The code's whitespace and digits are those of the specification, and the source's
  \<open>passesLuhn\<close> computes the checksum as the specification words it.
\<close>

lemma code_eq_char: "code d = n \<Longrightarrow> (code c = n \<longleftrightarrow> c = d)"
  by (auto simp: code_def)

lemma is_space_spec: "is_space c \<longleftrightarrow> c \<in> set spec_whitespace"
proof -
  have "code c = 9 \<longleftrightarrow> c = CHR 0x09" "code c = 10 \<longleftrightarrow> c = CHR 0x0A"
    "code c = 11 \<longleftrightarrow> c = CHR 0x0B" "code c = 12 \<longleftrightarrow> c = CHR 0x0C"
    "code c = 13 \<longleftrightarrow> c = CHR 0x0D" "code c = 32 \<longleftrightarrow> c = CHR '' ''"
    "code c = 160 \<longleftrightarrow> c = CHR 0xA0"
    by (rule code_eq_char, simp add: code_def)+
  then show ?thesis
    by (simp add: is_space_def spec_whitespace_def)
qed

lemma strip_ws_spec: "strip_ws s = spec_strip s"
  by (induction s) (simp_all add: strip_ws_def is_space_spec)

lemma spec_digit_code:
  "spec_digit c = (if is_digit c then Some (parseInt c) else None)"
proof -
  have d: "code c = 48 \<longleftrightarrow> c = CHR ''0''" "code c = 49 \<longleftrightarrow> c = CHR ''1''"
    "code c = 50 \<longleftrightarrow> c = CHR ''2''" "code c = 51 \<longleftrightarrow> c = CHR ''3''"
    "code c = 52 \<longleftrightarrow> c = CHR ''4''" "code c = 53 \<longleftrightarrow> c = CHR ''5''"
    "code c = 54 \<longleftrightarrow> c = CHR ''6''" "code c = 55 \<longleftrightarrow> c = CHR ''7''"
    "code c = 56 \<longleftrightarrow> c = CHR ''8''" "code c = 57 \<longleftrightarrow> c = CHR ''9''"
    by (rule code_eq_char, simp add: code_def)+
  have u: "[0 ..< 10] = [0, 1, 2, 3, 4, 5, 6, 7, 8, 9 :: nat]"
    by (simp add: upt_rec)
  show ?thesis
  proof (cases "is_digit c")
    case True
    then have "code c = 48 \<or> code c = 49 \<or> code c = 50 \<or> code c = 51 \<or> code c = 52 \<or>
        code c = 53 \<or> code c = 54 \<or> code c = 55 \<or> code c = 56 \<or> code c = 57"
      unfolding is_digit_def by arith
    then have "c \<in> set ''0123456789''"
      unfolding d by simp
    then show ?thesis
      by (auto simp: spec_digit_def u parseInt_def code_def is_digit_def)
  next
    case False
    then have "code c \<noteq> 48" "code c \<noteq> 49" "code c \<noteq> 50" "code c \<noteq> 51" "code c \<noteq> 52"
      "code c \<noteq> 53" "code c \<noteq> 54" "code c \<noteq> 55" "code c \<noteq> 56" "code c \<noteq> 57"
      unfolding is_digit_def by arith+
    then show ?thesis
      using False by (simp add: d spec_digit_def u)
  qed
qed

lemma spec_digits_code:
  "spec_digits s = (if list_all is_digit s then Some (map parseInt s) else None)"
  by (induction s) (simp_all add: spec_digit_code)

lemma passesLuhn_spec: "passesLuhn s = luhn_spec s"
proof (cases "list_all is_digit (spec_strip s)")
  case False
  then show ?thesis
    by (simp add: passesLuhn_def luhn_spec_def spec_digits_code strip_ws_spec rx_digits_range)
next
  case True
  let ?ds = "spec_strip s"
  have "(\<Sum>pos<length ?ds. luhn_value pos (rev (map parseInt ?ds) ! pos)) =
        (\<Sum>pos<length ?ds. luhn_value pos (parseInt (?ds ! (length ?ds - 1 - pos))))"
    by (rule sum.cong) (simp_all add: rev_nth)
  then show ?thesis
    using True luhn_loop_sum [of ?ds "length ?ds" 0 0]
    by (auto simp: passesLuhn_def luhn_spec_def spec_digits_code strip_ws_spec rx_digits_range
        Let_def)
qed

lemma client_luhn_loop_eq: "client_luhn_loop ds k sm b = luhn_loop ds k sm b"
  by (induction k arbitrary: sm b) (simp_all add: Let_def)

lemma fundAccount_rejects_input:
  "fundAccount_issues i \<noteq> [] \<Longrightarrow>
   fundAccount E db user i = Inl (ZodError (fundAccount_issues i))"
  by (cases "fundAccount_issues i") (simp_all add: fundAccount_def)

lemma fundAccount_runs_handler:
  "fundAccount_issues i = [] \<Longrightarrow> fundAccount E db user i \<noteq> Inl (ZodError xs)"
  by (auto simp: fundAccount_def Let_def split: option.splits)

lemma card_issues:
  "fs_type (fi_fundingSource i) = ''card'' \<Longrightarrow> 0.01 \<le> fi_amount i \<Longrightarrow>
   fundAccount_issues i = cardFundingSchema (fi_fundingSource i)"
  by (simp add: fundAccount_issues_def fundingSourceSchema_def check_def)

lemma card_4242:
  "passesLuhn ''4242424242424242'' \<and> detectCardType ''4242424242424242'' = Some visa"
  by code_simp


lemma luhn_examples:
  "luhn_spec ''4242424242424242'' \<and> \<not> luhn_spec ''1234567890123456'' \<and>
   luhn_spec ''9000000000000001'' \<and> detectCardType ''9000000000000001'' = None \<and>
   luhn_spec ''4242 4242 4242 4242'' \<and> detectCardType ''4242 4242 4242 4242'' = Some visa"
  by code_simp

text \<open>
  What the card schema does, in terms of the checksum of the specification and of the
  code's own brand detector: for a card funding instrument (with an amount that passes
  its own check) \<open>fundAccount\<close> rejects the input at validation exactly when the card
  number fails the checksum or the detector gives no brand. A number that fails the
  checksum is rejected with the issue ``Card number is invalid''; a number that passes it
  and gets no brand is rejected with the single issue ``Unsupported or unknown card
  type''. The first message contains ``invalid'' and the second ``unsupported'' (letter
  case aside), and neither contains the other's word.
\<close>

lemma card_schema_verdicts:
  "fs_type (fi_fundingSource i) = ''card'' \<and> 0.01 \<le> fi_amount i \<longrightarrow>
   ((\<exists>xs. fundAccount E db user i = Inl (ZodError xs)) \<longleftrightarrow>
      \<not> (luhn_spec (fs_accountNumber (fi_fundingSource i)) \<and>
         detectCardType (fs_accountNumber (fi_fundingSource i)) \<noteq> None)) \<and>
   (\<not> luhn_spec (fs_accountNumber (fi_fundingSource i)) \<longrightarrow>
      (\<exists>xs. fundAccount E db user i = Inl (ZodError xs) \<and>
         Issue [''fundingSource'', ''accountNumber''] ''Card number is invalid'' \<in> set xs)) \<and>
   (luhn_spec (fs_accountNumber (fi_fundingSource i)) \<and>
    detectCardType (fs_accountNumber (fi_fundingSource i)) = None \<longrightarrow>
      fundAccount E db user i =
        Inl (ZodError [Issue [''fundingSource'', ''accountNumber'']
                         ''Unsupported or unknown card type''])) \<and>
   includes_i ''Card number is invalid'' ''invalid'' \<and>
   includes_i ''Unsupported or unknown card type'' ''unsupported'' \<and>
   \<not> includes_i ''Card number is invalid'' ''unsupported'' \<and>
   \<not> includes_i ''Unsupported or unknown card type'' ''invalid''"
proof (intro impI conjI)
  assume a: "fs_type (fi_fundingSource i) = ''card'' \<and> 0.01 \<le> fi_amount i"
  then have iss: "fundAccount_issues i = cardFundingSchema (fi_fundingSource i)"
    by (simp add: card_issues)
  let ?n = "fs_accountNumber (fi_fundingSource i)"
  show "(\<exists>xs. fundAccount E db user i = Inl (ZodError xs)) \<longleftrightarrow>
      \<not> (luhn_spec ?n \<and> detectCardType ?n \<noteq> None)"
  proof (cases "cardFundingSchema (fi_fundingSource i) = []")
    case True
    then have "luhn_spec ?n \<and> detectCardType ?n \<noteq> None"
      by (auto simp: cardFundingSchema_def passesLuhn_spec split: if_splits)
    moreover have "\<And>xs. fundAccount E db user i \<noteq> Inl (ZodError xs)"
      using True iss by (simp add: fundAccount_runs_handler)
    ultimately show ?thesis by simp
  next
    case False
    then have "\<not> (luhn_spec ?n \<and> detectCardType ?n \<noteq> None)"
      by (auto simp: cardFundingSchema_def passesLuhn_spec split: if_splits)
    moreover have "fundAccount E db user i = Inl (ZodError (fundAccount_issues i))"
      using False iss by (simp add: fundAccount_rejects_input)
    ultimately show ?thesis by simp
  qed
  {
    assume l: "\<not> luhn_spec ?n"
    then have "fundAccount_issues i \<noteq> []" and
      "Issue [''fundingSource'', ''accountNumber''] ''Card number is invalid''
         \<in> set (fundAccount_issues i)"
      using iss by (simp_all add: cardFundingSchema_def passesLuhn_spec)
    then show "\<exists>xs. fundAccount E db user i = Inl (ZodError xs) \<and>
         Issue [''fundingSource'', ''accountNumber''] ''Card number is invalid'' \<in> set xs"
      by (simp add: fundAccount_rejects_input)
  }
  {
    assume l: "luhn_spec ?n \<and> detectCardType ?n = None"
    then have "fundAccount_issues i =
       [Issue [''fundingSource'', ''accountNumber''] ''Unsupported or unknown card type'']"
      using iss by (simp add: cardFundingSchema_def passesLuhn_spec)
    then show "fundAccount E db user i =
        Inl (ZodError [Issue [''fundingSource'', ''accountNumber'']
                         ''Unsupported or unknown card type''])"
      using fundAccount_rejects_input [of i E db user] by simp
  }
  show "includes_i ''Card number is invalid'' ''invalid''" by code_simp
  show "includes_i ''Unsupported or unknown card type'' ''unsupported''" by code_simp
  show "\<not> includes_i ''Card number is invalid'' ''unsupported''" by code_simp
  show "\<not> includes_i ''Unsupported or unknown card type'' ''invalid''" by code_simp
qed

text \<open>
  The verdicts at the card numbers of the repository's tests: \<open>4242424242424242\<close> is
  accepted, with blanks between its groups too; \<open>1234567890123456\<close> is invalid;
  \<open>9000000000000001\<close> is unsupported.
\<close>

lemma card_schema_examples:
  "\<not> (\<exists>xs. fundAccount example_env funded_db test_user (card_deposit 50 ''4242424242424242'') =
           Inl (ZodError xs)) \<and>
   \<not> (\<exists>xs. fundAccount example_env funded_db test_user
              (card_deposit 50 ''4242 4242 4242 4242'') = Inl (ZodError xs)) \<and>
   (\<exists>xs. fundAccount example_env funded_db test_user (card_deposit 30 ''1234567890123456'') =
           Inl (ZodError xs) \<and>
         Issue [''fundingSource'', ''accountNumber''] ''Card number is invalid'' \<in> set xs) \<and>
   fundAccount example_env funded_db test_user (card_deposit 25 ''9000000000000001'') =
     Inl (ZodError [Issue [''fundingSource'', ''accountNumber'']
                      ''Unsupported or unknown card type''])"
  using card_schema_verdicts
          [of "card_deposit 50 ''4242424242424242''" example_env funded_db test_user]
        card_schema_verdicts
          [of "card_deposit 50 ''4242 4242 4242 4242''" example_env funded_db test_user]
        card_schema_verdicts
          [of "card_deposit 30 ''1234567890123456''" example_env funded_db test_user]
        card_schema_verdicts
          [of "card_deposit 25 ''9000000000000001''" example_env funded_db test_user]
        luhn_examples card_4242
  by (simp add: card_deposit_def)

lemma card_2223_facts:
  "luhn_spec ''2223003122003222'' \<and> spec_brand ''2223003122003222'' = Some mastercard \<and>
   passesLuhn ''2223003122003222'' \<and> detectCardType ''2223003122003222'' = None"
  by code_simp

lemma card_2221_15_facts:
  "luhn_spec ''222100000000000'' \<and> spec_brand ''222100000000000'' = None \<and>
   passesLuhn ''222100000000000'' \<and> detectCardType ''222100000000000'' = Some mastercard"
  by code_simp

text \<open>
  Claim C3. The claim asks that \<open>fundAccount\<close> accept a card number exactly when it passes
  the Luhn checksum and resolves to one of the recognized brands. The messages are as
  the claim gives them (\<open>card_schema_verdicts\<close>), and the checksum is the specification's
  (\<open>passesLuhn_spec\<close>), but the brand that decides is the code's detector, whose second
  mastercard pattern is the one of claim C4. The number \<open>2223003122003222\<close> passes the
  checksum and is a mastercard by the specification's table (prefix 2223, 16 digits):
  it is refused as unsupported, for every caller and store. The 15-digit number
  \<open>222100000000000\<close> passes the checksum and has no brand by the table: its input passes
  the validation and the deposit is made.
\<close>

theorem fundAccount_refuses_mastercard_2223:
  "luhn_spec ''2223003122003222'' \<and> spec_brand ''2223003122003222'' = Some mastercard \<and>
   fundAccount E db user (card_deposit 50 ''2223003122003222'') =
     Inl (ZodError [Issue [''fundingSource'', ''accountNumber'']
                      ''Unsupported or unknown card type'']) \<and>
   luhn_spec ''222100000000000'' \<and> spec_brand ''222100000000000'' = None \<and>
   fundAccount_issues (card_deposit 50 ''222100000000000'') = [] \<and>
   (\<exists>db' r. fundAccount (E\<lparr>clock := 200\<rparr>) funded_db test_user
              (card_deposit 50 ''222100000000000'') = Inr (db', r))"
proof -
  have a: "fundAccount_issues (card_deposit 50 ''2223003122003222'') =
             [Issue [''fundingSource'', ''accountNumber''] ''Unsupported or unknown card type'']"
    using card_2223_facts
    by (simp add: fundAccount_issues_def card_deposit_def check_def fundingSourceSchema_def
        cardFundingSchema_def)
  have b: "fundAccount_issues (card_deposit 50 ''222100000000000'') = []"
    using card_2221_15_facts
    by (simp add: fundAccount_issues_def card_deposit_def check_def fundingSourceSchema_def
        cardFundingSchema_def)
  have c: "\<exists>db' r. fundAccount (E\<lparr>clock := 200\<rparr>) funded_db test_user
              (card_deposit 50 ''222100000000000'') = Inr (db', r)"
    using b
    by (simp add: fundAccount_def card_deposit_def funded_db_def test_user_def test_account_def
        Let_def)
  show ?thesis
    using a b c card_2223_facts card_2221_15_facts
      fundAccount_rejects_input [of "card_deposit 50 ''2223003122003222''" E db user]
    by simp
qed

text \<open>
  Claim C10, as amended. For every input string the funding form's copy of \<open>passesLuhn\<close>
  returns the boolean that the server's returns and its copy of \<open>detectCardType\<close>
  returns the brand that the server's returns, so the form's rule \<open>validCard\<close> accepts a
  card number exactly when the server's card schema raises no issue on it. The card
  field of the form as a whole accepts less: it accepts a value exactly when the raw
  value is 13 to 19 digits, with no whitespace, and the server's card schema accepts it.
\<close>

theorem form_and_server_card_acceptance:
  "client_passesLuhn s = passesLuhn s \<and>
   client_detectCardType s = detectCardType s \<and>
   (validCard ''card'' s = Valid \<longleftrightarrow>
      cardFundingSchema \<lparr>fs_type = ''card'', fs_accountNumber = s, fs_routingNumber = r\<rparr> = []) \<and>
   (accountNumber_rules ''card'' s = None \<longleftrightarrow>
      rx_test (Rep 13 19 Dig) s \<and>
      cardFundingSchema \<lparr>fs_type = ''card'', fs_accountNumber = s, fs_routingNumber = r\<rparr> = [])"
proof -
  have l: "client_passesLuhn s = passesLuhn s"
    by (simp add: client_passesLuhn_def passesLuhn_def client_luhn_loop_eq)
  have d: "client_detectCardType s = detectCardType s"
    by (simp add: client_detectCardType_def detectCardType_def visa_rx_def mastercard_old_rx_def
        mastercard_new_rx_def amex_rx_def discover_rx_def jcb_rx_def Let_def)
  have v: "validCard ''card'' s = Valid \<longleftrightarrow>
      cardFundingSchema \<lparr>fs_type = ''card'', fs_accountNumber = s, fs_routingNumber = r\<rparr> = []"
    by (simp add: l d validCard_def cardFundingSchema_def)
  have e: "\<not> rx_test (Rep 13 19 Dig) []"
    by (simp add: rx_digits_range)
  have f: "accountNumber_rules ''card'' s = None \<longleftrightarrow>
      rx_test (Rep 13 19 Dig) s \<and> validCard ''card'' s = Valid"
    using e by (cases "validCard ''card'' s") (auto simp: accountNumber_rules_def)
  show ?thesis
    using l d v f by simp
qed

text \<open>
  The claim as it was stated, that the acceptance criteria of the form and of the server
  coincide, fails on a card number written with blanks: the server's schema strips them
  and accepts \<open>4242 4242 4242 4242\<close>, the \<open>pattern\<close> rule of the form refuses it.
\<close>

theorem form_refuses_spaced_card_number:
  "cardFundingSchema
     \<lparr>fs_type = ''card'', fs_accountNumber = ''4242 4242 4242 4242'', fs_routingNumber = None\<rparr> = [] \<and>
   accountNumber_rules ''card'' ''4242 4242 4242 4242'' =
     Some ''Card number must be between 13 and 19 digits''"
proof -
  have "passesLuhn ''4242 4242 4242 4242'' \<and>
        detectCardType ''4242 4242 4242 4242'' = Some visa \<and>
        \<not> rx_test (Rep 13 19 Dig) ''4242 4242 4242 4242''"
    by code_simp
  then show ?thesis
    by (simp add: cardFundingSchema_def accountNumber_rules_def)
qed

lemma in_rx_one: "u \<in> set (rx_one p t) \<longleftrightarrow> (\<exists>c. t = c # u \<and> p c)"
  by (cases t) (auto simp: rx_one_def)

lemma in_rx_digits_n:
  "u \<in> set (rx_run (digits_n n) t) \<longleftrightarrow>
     n \<le> length t \<and> list_all is_digit (take n t) \<and> u = drop n t"
  by (auto simp: digits_n_def rx_pow_dig)

lemma digit_not_space: "is_digit c \<Longrightarrow> \<not> is_space c"
  by (auto simp: is_digit_def is_space_def)

lemma strip_ws_digits: "list_all is_digit s \<Longrightarrow> strip_ws s = s"
  by (induction s) (simp_all add: strip_ws_def digit_not_space)

text \<open>
  Of the strings of 16 characters, the second mastercard pattern matches only those that
  start with \<open>2720\<close>.
\<close>

lemma mastercard_new_16:
  assumes "length s = 16" and "rx_test mastercard_new_rx s"
  shows "take 4 s = ''2720''"
  using assms
  by (auto simp: rx_test_def mastercard_new_rx_def cat_def alt_def in_rx_one in_rx_digits_n
      simp del: rx_run.simps(7))

lemma first_digit_of_brand:
  "rx_test visa_rx s \<Longrightarrow> hd s = CHR ''4''"
  "rx_test mastercard_old_rx s \<Longrightarrow> hd s = CHR ''5''"
  "rx_test amex_rx s \<Longrightarrow> hd s = CHR ''3''"
  "rx_test discover_rx s \<Longrightarrow> hd s = CHR ''6''"
  "rx_test jcb_rx s \<Longrightarrow> hd s = CHR ''3''"
  by (auto simp: rx_test_def visa_rx_def mastercard_old_rx_def amex_rx_def discover_rx_def
      jcb_rx_def cat_def alt_def in_rx_one simp del: rx_run.simps(7))

text \<open>
  So every 16-digit number that starts with 2, the prefix \<open>2720\<close> apart, gets no brand:
  among them all the numbers with a prefix from 2221 to 2719.
\<close>

lemma detectCardType_16_digits_from_2:
  assumes "length s = 16" and "list_all is_digit s" and "hd s = CHR ''2''"
    and "take 4 s \<noteq> ''2720''"
  shows "detectCardType s = None"
proof -
  have "\<not> rx_test mastercard_new_rx s"
    using mastercard_new_16 [OF assms(1)] assms(4) by blast
  moreover have "\<not> rx_test visa_rx s" "\<not> rx_test mastercard_old_rx s" "\<not> rx_test amex_rx s"
    "\<not> rx_test discover_rx s" "\<not> rx_test jcb_rx s"
    using first_digit_of_brand [of s] assms(3) by auto
  ultimately show ?thesis
    by (simp add: detectCardType_def strip_ws_digits [OF assms(2)])
qed

text \<open>No brand is given exactly when none of the six patterns matches.\<close>

lemma detectCardType_None_iff:
  "detectCardType s = None \<longleftrightarrow>
     \<not> (rx_test visa_rx (strip_ws s) \<or> rx_test mastercard_old_rx (strip_ws s) \<or>
        rx_test mastercard_new_rx (strip_ws s) \<or> rx_test amex_rx (strip_ws s) \<or>
        rx_test discover_rx (strip_ws s) \<or> rx_test jcb_rx (strip_ws s))"
  by (simp add: detectCardType_def Let_def)

text \<open>
  Claim C4. The claim asks that every 16-digit number with a prefix from 2221 to 2720 be
  classed as mastercard. The second mastercard pattern takes 15 digits for the prefixes
  it lists as 4 digits and 16 only for \<open>2720\<close>: the 16-digit number \<open>2221000000000009\<close>,
  which passes Luhn, gets no brand, while its first 15 digits are classed as mastercard.
\<close>

theorem detectCardType_misses_2221:
  "detectCardType ''2221000000000009'' = None \<and>
   passesLuhn ''2221000000000009'' \<and>
   length ''2221000000000009'' = 16 \<and>
   detectCardType ''222100000000000'' = Some mastercard \<and>
   detectCardType ''2720000000000000'' = Some mastercard"
  by code_simp

section \<open>Properties of funding, the transaction list and logout\<close>

lemma insort_key_before_last:
  "f a \<le> f x \<Longrightarrow> insort_key f a (ys @ [x]) = insort_key f a ys @ [x]"
  by (induction ys) simp_all

lemma sort_key_append_max:
  "\<forall>t \<in> set xs. f t \<le> f x \<Longrightarrow> sort_key f (xs @ [x]) = sort_key f xs @ [x]"
  by (induction xs) (simp_all add: insort_key_before_last)

text \<open>
  A row that is appended with a time that no row of the table exceeds does not change
  which row the query returns, unless the table was empty.
\<close>

lemma first_by_createdAt_append:
  assumes "txs \<noteq> []" and "\<forall>t \<in> set txs. tx_createdAt t \<le> tx_createdAt x"
  shows "first_by_createdAt (txs @ [x]) = first_by_createdAt txs"
proof -
  have "sort_key tx_createdAt txs \<noteq> []"
    using assms(1) by (metis length_sort list.size(3) length_0_conv)
  then show ?thesis
    using sort_key_append_max [OF assms(2)]
    by (cases "sort_key tx_createdAt txs") (simp_all add: first_by_createdAt_def)
qed

lemma find_updated_balance:
  "find (\<lambda>a. account_id a = k)
     (map (\<lambda>a. if account_id a = k then a\<lparr>account_balance := b\<rparr> else a) xs) =
   map_option (\<lambda>a. a\<lparr>account_balance := b\<rparr>) (find (\<lambda>a. account_id a = k) xs)"
  by (induction xs) simp_all

lemma find_weaken:
  "find (\<lambda>a. P a \<and> Q a) xs = Some y \<Longrightarrow> \<exists>z. find P xs = Some z"
  by (induction xs) (auto split: if_splits)

text \<open>
  What a successful \<open>fundAccount\<close> does: it appends exactly one transaction, a completed
  deposit of the amount, sets the balance to the account's balance plus the amount and
  returns that balance; the transaction that it returns is the first row of the whole
  table in order of creation.
\<close>

lemma fundAccount_Inr:
  assumes "fundAccount E db user i = Inr (db', r)"
  shows "\<exists>account.
           find (\<lambda>a. account_id a = fi_accountId i \<and> account_userId a = user_id user)
             (accounts db) = Some account \<and>
           account_status account = ''active'' \<and>
           transactions db' = transactions db @ [new_deposit E db i] \<and>
           accounts db' =
             map (\<lambda>a. if account_id a = fi_accountId i
                       then a\<lparr>account_balance := account_balance account + fi_amount i\<rparr>
                       else a) (accounts db) \<and>
           fr_transaction r = first_by_createdAt (transactions db') \<and>
           fr_newBalance r = account_balance account + fi_amount i"
proof -
  from assms have iss: "fundAccount_issues i = []"
    by (cases "fundAccount_issues i") (simp_all add: fundAccount_def)
  from assms iss obtain account where
    f: "find (\<lambda>a. account_id a = fi_accountId i \<and> account_userId a = user_id user)
          (accounts db) = Some account"
    by (cases "find (\<lambda>a. account_id a = fi_accountId i \<and> account_userId a = user_id user)
          (accounts db)") (auto simp: fundAccount_def Let_def)
  from find_weaken [OF f] obtain z where
    z: "find (\<lambda>a. account_id a = fi_accountId i) (accounts db) = Some z" by blast
  show ?thesis
    using assms iss f z
    by (auto simp: fundAccount_def Let_def new_deposit_def find_updated_balance
        split: if_splits)
qed

text \<open>
  So on a table that holds a row already, none of them created after the clock of the
  call, the returned transaction is the one that the query returned before the call.
\<close>

lemma fundAccount_returns_earlier_row:
  assumes ok: "fundAccount E db user i = Inr (db', r)"
    and old: "transactions db \<noteq> []"
    and past: "\<forall>t \<in> set (transactions db). tx_createdAt t \<le> clock E"
  shows "fr_transaction r = first_by_createdAt (transactions db)"
proof -
  from fundAccount_Inr [OF ok] have
    t: "transactions db' = transactions db @ [new_deposit E db i]" and
    r: "fr_transaction r = first_by_createdAt (transactions db')" by auto
  have "\<forall>t \<in> set (transactions db). tx_createdAt t \<le> tx_createdAt (new_deposit E db i)"
    using past by (simp add: new_deposit_def)
  from first_by_createdAt_append [OF old this] show ?thesis using t r by simp
qed

text \<open>
  Claim C1. The claim asks that \<open>fundAccount\<close> return the transaction it created. The
  handler reads back the first row of the whole table in ascending order of creation:
  on a store that holds an earlier deposit, a deposit of 50 appends the new row and
  raises the balance from 10 to 60, and returns the earlier deposit of 10.
\<close>

theorem fundAccount_returns_oldest_transaction:
  "fundAccount (E\<lparr>clock := 200\<rparr>) funded_db test_user (card_deposit 50 ''4242424242424242'') =
     Inr (funded_db
            \<lparr>transactions :=
               [earlier_deposit,
                \<lparr>tx_id = 2, tx_accountId = 1, tx_type = ''deposit'', tx_amount = 50,
                 tx_description = ''Funding from card'', tx_status = ''completed'',
                 tx_createdAt = 200, tx_processedAt = 200\<rparr>],
             accounts := [test_account\<lparr>account_balance := 60\<rparr>]\<rparr>,
          \<lparr>fr_transaction = Some earlier_deposit, fr_newBalance = 60\<rparr>)"
proof -
  have "fundAccount_issues (card_deposit 50 ''4242424242424242'') = []"
    using card_4242
    by (simp add: fundAccount_issues_def card_deposit_def check_def fundingSourceSchema_def
        cardFundingSchema_def)
  then show ?thesis
    by (simp add: fundAccount_def card_deposit_def funded_db_def test_user_def test_account_def
        earlier_deposit_def first_by_createdAt_def next_id_def Let_def)
qed

text \<open>The descriptions leave \<open>getTransactions\<close> as they are stored.\<close>

lemma getTransactions_descriptions:
  "getTransactions db user accountId = Inr txs \<Longrightarrow>
   map tx_description txs =
     map tx_description (filter (\<lambda>t. tx_accountId t = accountId) (transactions db))"
  by (auto simp: getTransactions_def Let_def Transaction.extend_def split: option.splits)

text \<open>
  Claim C5. The claim asks that a stored description with a \<open><script>\<close> tag never leave
  \<open>getTransactions\<close> with the literal tag. The handler copies each row: on the store of
  the repository's test the description is returned as it is stored.
\<close>

theorem getTransactions_returns_raw_description:
  \<open>getTransactions script_db test_user 1 =
     Inr [\<lparr>tx_id = 1, tx_accountId = 1, tx_type = ''deposit'', tx_amount = 10,
           tx_description = ''<script>alert("owned")</script>'', tx_status = ''completed'',
           tx_createdAt = 100, tx_processedAt = 100, accountType = Some ''checking''\<rparr>]\<close>
  by (simp add: getTransactions_def script_db_def script_deposit_def test_user_def
      test_account_def Transaction.extend_def)

text \<open>
  Claim C6. The claim asks for \<open>success = false\<close> with a ``no active session'' message
  when \<open>logout\<close> revokes nothing. The handler answers \<open>success = true\<close> on every call: a
  caller with a user and no session cookie deletes nothing and is told ``Logged out
  successfully'', and a caller without a user is told ``No active session'', with
  \<open>success = true\<close> too.
\<close>

theorem logout_always_reports_success:
  "success (snd (logout db ctx)) \<and>
   logout db \<lparr>ctx_user = Some user, ctx_req = Cookies None\<rparr> =
     (db, \<lparr>success = True, message = ''Logged out successfully'',
           logout_cookie = ''session=; Path=/; HttpOnly; SameSite=Strict; Max-Age=0''\<rparr>) \<and>
   logout db \<lparr>ctx_user = None, ctx_req = req\<rparr> =
     (db, \<lparr>success = True, message = ''No active session'',
           logout_cookie = ''session=; Path=/; HttpOnly; SameSite=Strict; Max-Age=0''\<rparr>)"
  by (simp add: logout_def Let_def request_token_def truthy_def)

text \<open>
  The part of C6 that holds: a call with a user and a session token deletes the rows of
  that token and no other.
\<close>

lemma logout_deletes_session:
  "ctx_user ctx = Some u \<Longrightarrow> request_token (ctx_req ctx) = Some t \<Longrightarrow> t \<noteq> [] \<Longrightarrow>
   fst (logout db ctx) = db\<lparr>sessions := filter (\<lambda>s. session_token s \<noteq> t) (sessions db)\<rparr>"
  by (simp add: logout_def Let_def truthy_def)

section \<open>Properties of the sessions\<close>

lemma find_append_new:
  "find P xs = None \<Longrightarrow> P x \<Longrightarrow> find P (xs @ [x]) = Some x"
  by (induction xs) (auto split: if_splits)

lemma create_session_Inr:
  assumes "create_session E db u = Inr (db', r)"
  shows "jwt_sign E (user_id u) (clock E) \<notin>
           session_token ` set (filter (\<lambda>s. session_userId s \<noteq> user_id u) (sessions db))"
    and "users db' = users db"
    and "\<exists>n. sessions db' = filter (\<lambda>s. session_userId s \<noteq> user_id u) (sessions db) @
           [\<lparr>session_id = n, session_userId = user_id u,
             session_token = jwt_sign E (user_id u) (clock E),
             session_expiresAt = clock E + 7 * 86400\<rparr>]"
    and "r = \<lparr>auth_user = PublicUser.truncate u, auth_token = jwt_sign E (user_id u) (clock E),
              auth_cookie = session_cookie (jwt_sign E (user_id u) (clock E))\<rparr>"
  using assms
  by (auto simp: create_session_def insert_session_def Let_def split: if_splits)

lemma create_session_ok:
  assumes "jwt_sign E (user_id u) (clock E) \<notin>
           session_token ` set (filter (\<lambda>s. session_userId s \<noteq> user_id u) (sessions db))"
  shows "\<exists>db'. create_session E db u =
           Inr (db', \<lparr>auth_user = PublicUser.truncate u,
                      auth_token = jwt_sign E (user_id u) (clock E),
                      auth_cookie = session_cookie (jwt_sign E (user_id u) (clock E))\<rparr>)"
  using assms by (simp add: create_session_def insert_session_def Let_def)

text \<open>
  After a session is created the user has exactly one session row, and it holds the
  token that is returned.
\<close>

lemma create_session_one_row:
  assumes "create_session E db u = Inr (db', r)"
  shows "map session_token (filter (\<lambda>s. session_userId s = user_id u) (sessions db')) = [auth_token r]"
proof -
  from create_session_Inr(3) [OF assms] obtain n where
    s: "sessions db' = filter (\<lambda>s. session_userId s \<noteq> user_id u) (sessions db) @
           [\<lparr>session_id = n, session_userId = user_id u,
             session_token = jwt_sign E (user_id u) (clock E),
             session_expiresAt = clock E + 7 * 86400\<rparr>]" by blast
  have "filter (\<lambda>s. session_userId s = user_id u)
          (filter (\<lambda>s. session_userId s \<noteq> user_id u) (sessions db)) = []"
    by (simp add: filter_empty_conv)
  then show ?thesis using s create_session_Inr(4) [OF assms] by simp
qed

lemma login_Inr:
  assumes "login E db i = Inr (db', r)"
  shows "\<exists>u. find (\<lambda>u. user_email u = li_email i) (users db) = Some u \<and>
             zod_email E (li_email i) \<and> bcrypt_compare E (li_password i) (user_password u) \<and>
             create_session E db u = Inr (db', r)"
  using assms by (auto simp: login_def Let_def split: if_splits option.splits)

lemma login_one_session:
  assumes "login E db i = Inr (db', r)"
  shows "map session_token (filter (\<lambda>s. session_userId s = user_id (auth_user r)) (sessions db')) = [auth_token r]"
proof -
  from login_Inr [OF assms] obtain u where c: "create_session E db u = Inr (db', r)" by blast
  have "user_id (auth_user r) = user_id u"
    using create_session_Inr(4) [OF c] by (simp add: PublicUser.truncate_def)
  then show ?thesis using create_session_one_row [OF c] by simp
qed

lemma signup_Inr:
  assumes "signup E db i = Inr (db', r)"
  shows "\<exists>db1 u. create_session E db1 u = Inr (db', r)"
  using assms
  by (auto simp: signup_def Let_def split: sum.splits option.splits)

lemma signup_one_session:
  assumes "signup E db i = Inr (db', r)"
  shows "map session_token
           (filter (\<lambda>s. session_userId s = user_id (auth_user r)) (sessions db')) =
         [auth_token r]"
proof -
  from signup_Inr [OF assms] obtain db1 u where
    c: "create_session E db1 u = Inr (db', r)" by blast
  have "user_id (auth_user r) = user_id u"
    using create_session_Inr(4) [OF c] by (simp add: PublicUser.truncate_def)
  then show ?thesis using create_session_one_row [OF c] by simp
qed

text \<open>
  Claim C2. The claim asks that the token of the surviving session differ from every
  token issued before for the user. The token is minted from the user id and the clock
  in whole seconds alone: a login that succeeds, followed by a second login of the same
  user within the same second, leaves exactly one session row for the user (that part
  of the claim holds), and its token is the token of the first login.
\<close>

theorem relogin_same_second_same_token:
  assumes "login E db i = Inr (db1, r1)"
  shows "\<exists>db2 r2. login E db1 i = Inr (db2, r2) \<and> auth_token r2 = auth_token r1 \<and>
           map session_token
             (filter (\<lambda>s. session_userId s = user_id (auth_user r1)) (sessions db2)) =
           [auth_token r1]"
proof -
  from login_Inr [OF assms] obtain u where
    f: "find (\<lambda>u. user_email u = li_email i) (users db) = Some u" and
    z: "zod_email E (li_email i)" and
    b: "bcrypt_compare E (li_password i) (user_password u)" and
    c: "create_session E db u = Inr (db1, r1)" by blast
  let ?t = "jwt_sign E (user_id u) (clock E)"
  let ?F = "filter (\<lambda>s. session_userId s \<noteq> user_id u) (sessions db)"
  from create_session_Inr(3) [OF c] obtain n where
    s1: "sessions db1 = ?F @ [\<lparr>session_id = n, session_userId = user_id u,
             session_token = ?t, session_expiresAt = clock E + 7 * 86400\<rparr>]" by blast
  have fresh: "?t \<notin> session_token ` set ?F" by (rule create_session_Inr(1) [OF c])
  have "filter (\<lambda>s. session_userId s \<noteq> user_id u) (sessions db1) = ?F"
    using s1 by simp
  then have "?t \<notin> session_token ` set (filter (\<lambda>s. session_userId s \<noteq> user_id u) (sessions db1))"
    using fresh by simp
  from create_session_ok [OF this] obtain db2 where
    c2: "create_session E db1 u = Inr (db2, \<lparr>auth_user = PublicUser.truncate u,
                      auth_token = ?t, auth_cookie = session_cookie ?t\<rparr>)" by blast
  have l2: "login E db1 i = Inr (db2, \<lparr>auth_user = PublicUser.truncate u,
                      auth_token = ?t, auth_cookie = session_cookie ?t\<rparr>)"
    using f z b c2 create_session_Inr(2) [OF c] by (simp add: login_def)
  have r1: "r1 = \<lparr>auth_user = PublicUser.truncate u, auth_token = ?t, auth_cookie = session_cookie ?t\<rparr>"
    by (rule create_session_Inr(4) [OF c])
  show ?thesis using l2 login_one_session [OF l2] r1 by simp
qed

text \<open>
  The theorem on the example store: the user of the store logs in twice at clock 7.
\<close>

lemma example_token: "jwt_sign example_env 1 (clock example_env) = ''jwt.u.ttttttt''"
  by (simp add: example_env_def) code_simp

lemma first_login:
  "login example_env funded_db \<lparr>li_email = ''multi@example.com'', li_password = ''Aa1!good!''\<rparr> =
     Inr (funded_db
            \<lparr>sessions := [\<lparr>session_id = 1, session_userId = 1, session_token = ''jwt.u.ttttttt'',
                            session_expiresAt = 604807\<rparr>]\<rparr>,
          \<lparr>auth_user = PublicUser.truncate test_user, auth_token = ''jwt.u.ttttttt'',
            auth_cookie = session_cookie ''jwt.u.ttttttt''\<rparr>)"
proof -
  have e: "zod_email example_env ''multi@example.com''"
    "bcrypt_compare example_env ''Aa1!good!'' ''$2a$Aa1!good!''" "clock example_env = 7"
    by (simp_all add: example_env_def)
  show ?thesis
    using example_token
    by (simp add: login_def e funded_db_def test_user_def create_session_def
        insert_session_def next_id_def Let_def)
qed

theorem relogin_same_second_same_token_witness:
  "\<exists>db1 r1 db2 r2.
     login example_env funded_db \<lparr>li_email = ''multi@example.com'', li_password = ''Aa1!good!''\<rparr> =
       Inr (db1, r1) \<and>
     login example_env db1 \<lparr>li_email = ''multi@example.com'', li_password = ''Aa1!good!''\<rparr> =
       Inr (db2, r2) \<and>
     auth_token r1 = ''jwt.u.ttttttt'' \<and> auth_token r2 = ''jwt.u.ttttttt'' \<and>
     map session_token (filter (\<lambda>s. session_userId s = 1) (sessions db2)) = [''jwt.u.ttttttt'']"
  using relogin_same_second_same_token [OF first_login]
  by (auto simp: first_login PublicUser.truncate_def test_user_def)

text \<open>
  Claim C9. A login whose address matches no user, and a login whose address matches a
  user while the hash comparison fails for the password, are both rejected with the code
  \<open>UNAUTHORIZED\<close> and the message ``Invalid credentials'': the two results are equal. Both
  inputs are taken to pass the input schema (a well-formed address).
\<close>

theorem login_failures_indistinguishable:
  assumes "zod_email E1 (li_email a)" and "zod_email E2 (li_email b)"
    and "li_email a \<notin> user_email ` set (users db1)"
    and "li_email b \<in> user_email ` set (users db2)"
    and "\<forall>u \<in> set (users db2). user_email u = li_email b \<longrightarrow>
           \<not> bcrypt_compare E2 (li_password b) (user_password u)"
  shows "login E1 db1 a = Inl (TRPCError UNAUTHORIZED ''Invalid credentials'') \<and>
         login E2 db2 b = Inl (TRPCError UNAUTHORIZED ''Invalid credentials'') \<and>
         login E1 db1 a = login E2 db2 b"
proof -
  have "find (\<lambda>u. user_email u = li_email a) (users db1) = None"
    using assms(3) by (force simp: find_None_iff)
  then have a: "login E1 db1 a = Inl (TRPCError UNAUTHORIZED ''Invalid credentials'')"
    using assms(1) by (simp add: login_def)
  obtain u where u: "find (\<lambda>u. user_email u = li_email b) (users db2) = Some u"
    using assms(4) by (cases "find (\<lambda>u. user_email u = li_email b) (users db2)") (force simp: find_None_iff)+
  then have "u \<in> set (users db2) \<and> user_email u = li_email b"
    by (auto simp: find_Some_iff)
  then have "\<not> bcrypt_compare E2 (li_password b) (user_password u)"
    using assms(5) by blast
  then have b: "login E2 db2 b = Inl (TRPCError UNAUTHORIZED ''Invalid credentials'')"
    using assms(2) u by (simp add: login_def)
  show ?thesis using a b by simp
qed

text \<open>
  The theorem on the example store: an address that no user holds, and the address of
  the store's user with a wrong password.
\<close>

theorem login_failures_indistinguishable_witness:
  "login example_env funded_db \<lparr>li_email = ''nobody@example.com'', li_password = ''Aa1!good!''\<rparr> =
     Inl (TRPCError UNAUTHORIZED ''Invalid credentials'') \<and>
   login example_env funded_db \<lparr>li_email = ''multi@example.com'', li_password = ''password''\<rparr> =
     Inl (TRPCError UNAUTHORIZED ''Invalid credentials'') \<and>
   ''multi@example.com'' \<in> user_email ` set (users funded_db) \<and>
   ''nobody@example.com'' \<notin> user_email ` set (users funded_db) \<and>
   \<not> bcrypt_compare example_env ''password'' (user_password test_user)"
  using login_failures_indistinguishable
    [of example_env "\<lparr>li_email = ''nobody@example.com'', li_password = ''Aa1!good!''\<rparr>"
        example_env "\<lparr>li_email = ''multi@example.com'', li_password = ''password''\<rparr>"
        funded_db funded_db]
  by (simp add: example_env_def funded_db_def test_user_def)

section \<open>Properties of signup\<close>

lemma signup_parse_ok:
  "signup_issues E i = [] \<Longrightarrow>
   signup_parse E i =
     Inr (i\<lparr>su_email := toLowerCase (su_email i), su_state := toUpperCase (su_state i)\<rparr>)"
  by (simp add: signup_parse_def)

text \<open>
  An input that passes the schema, with an address that no user holds, is stored: the
  address in lower case and the state in upper case.
\<close>

lemma signup_creates_user:
  assumes v: "signup_issues E i = []"
    and n: "toLowerCase (su_email i) \<notin> user_email ` set (users db)"
    and t: "jwt_sign E (next_id (map user_id (users db))) (clock E) \<notin>
              session_token ` set (sessions db)"
  shows "\<exists>db' r u. signup E db i = Inr (db', r) \<and> users db' = users db @ [u] \<and>
           auth_user r = PublicUser.truncate u \<and>
           user_email u = toLowerCase (su_email i) \<and>
           user_state u = toUpperCase (su_state i)"
proof -
  let ?input = "i\<lparr>su_email := toLowerCase (su_email i), su_state := toUpperCase (su_state i)\<rparr>"
  let ?u = "new_user E db ?input"
  let ?db1 = "db\<lparr>users := users db @ [?u]\<rparr>"
  have none: "find (\<lambda>u. user_email u = toLowerCase (su_email i)) (users db) = None"
    using n by (force simp: find_None_iff)
  then have some: "find (\<lambda>u. user_email u = toLowerCase (su_email i)) (users db @ [?u]) = Some ?u"
    by (rule find_append_new) (simp add: new_user_def)
  have "jwt_sign E (user_id ?u) (clock E) \<notin>
          session_token ` set (filter (\<lambda>s. session_userId s \<noteq> user_id ?u) (sessions ?db1))"
    using t by (auto simp: new_user_def)
  from create_session_ok [OF this] obtain db' where
    c: "create_session E ?db1 ?u =
          Inr (db', \<lparr>auth_user = PublicUser.truncate ?u,
                     auth_token = jwt_sign E (user_id ?u) (clock E),
                     auth_cookie = session_cookie (jwt_sign E (user_id ?u) (clock E))\<rparr>)"
    by blast
  have "signup E db i =
          Inr (db', \<lparr>auth_user = PublicUser.truncate ?u,
                     auth_token = jwt_sign E (user_id ?u) (clock E),
                     auth_cookie = session_cookie (jwt_sign E (user_id ?u) (clock E))\<rparr>)"
    using none some c signup_parse_ok [OF v]
    by (simp add: signup_def Let_def new_user_def)
  moreover have "users db' = users db @ [?u]"
    using create_session_Inr(2) [OF c] by simp
  moreover have "user_email ?u = toLowerCase (su_email i)" "user_state ?u = toUpperCase (su_state i)"
    by (simp_all add: new_user_def)
  ultimately show ?thesis by auto
qed

lemma test_fields_ok:
  "passwordSchema [''password''] ''Aa1!good!'' = [] \<and>
   rx_test (Seq (Opt (Chr CHR ''+'')) (Rep 10 15 Dig)) ''+14155550123'' \<and>
   rx_test (digits_n 9) ''111111111'' \<and>
   rx_test (digits_n 5) ''07001''"
  by code_simp

lemma test_signup_issues:
  "zod_email E e \<Longrightarrow> dateOfBirth_ok E ''1990-01-01'' \<Longrightarrow> length st = 2 \<Longrightarrow>
   signup_issues E (test_signup e st) = []"
  using test_fields_ok by (simp add: signup_issues_def test_signup_def check_def)

lemma case_examples:
  "toLowerCase ''oops@example.con'' = ''oops@example.con'' \<and>
   toLowerCase ''bad@example.com'' = ''bad@example.com'' \<and>
   toLowerCase ''TEST@EXAMPLE.COM'' = ''test@example.com'' \<and>
   toUpperCase ''XX'' = ''XX'' \<and> toUpperCase ''NJ'' = ''NJ'' \<and> toUpperCase ''nj'' = ''NJ''"
  by code_simp

lemma example_env_ok:
  "zod_email example_env ''oops@example.con'' \<and> zod_email example_env ''bad@example.com'' \<and>
   dateOfBirth_ok example_env ''1990-01-01''"
  by (simp add: example_env_def dateOfBirth_ok_def)

text \<open>
  Claim C7. The claim asks that an address whose domain ends in \<open>.con\<close> be rejected with a
  ``did you mean'' suggestion. The schema of the address is the library's check and the
  lower-casing, nothing else: whenever the library takes \<open>oops@example.con\<close> as well
  formed, the signup of the repository's test succeeds and stores a user with that
  address.
\<close>

theorem signup_accepts_con_domain:
  assumes "zod_email E ''oops@example.con''" and "dateOfBirth_ok E ''1990-01-01''"
    and "''oops@example.con'' \<notin> user_email ` set (users db)"
    and "jwt_sign E (next_id (map user_id (users db))) (clock E) \<notin>
           session_token ` set (sessions db)"
  shows "\<exists>db' r. signup E db (test_signup ''oops@example.con'' ''NJ'') = Inr (db', r) \<and>
           user_email (auth_user r) = ''oops@example.con'' \<and>
           ''oops@example.con'' \<in> user_email ` set (users db')"
proof -
  have v: "signup_issues E (test_signup ''oops@example.con'' ''NJ'') = []"
    using assms(1,2) by (simp add: test_signup_issues)
  have e: "su_email (test_signup ''oops@example.con'' ''NJ'') = ''oops@example.con''"
    by (simp add: test_signup_def)
  from signup_creates_user [OF v, of db] assms(3,4) e case_examples
  obtain db' r u where
    "signup E db (test_signup ''oops@example.con'' ''NJ'') = Inr (db', r)"
    "users db' = users db @ [u]" "auth_user r = PublicUser.truncate u"
    "user_email u = ''oops@example.con''"
    by auto
  then show ?thesis by (auto simp: PublicUser.truncate_def)
qed

theorem signup_accepts_con_domain_witness:
  "zod_email example_env ''oops@example.con'' \<and> dateOfBirth_ok example_env ''1990-01-01'' \<and>
   (\<exists>db' r. signup example_env empty_db (test_signup ''oops@example.con'' ''NJ'') = Inr (db', r) \<and>
           user_email (auth_user r) = ''oops@example.con'' \<and>
           ''oops@example.con'' \<in> user_email ` set (users db'))"
  using signup_accepts_con_domain [of example_env empty_db] example_env_ok
  by (simp add: empty_db_def)

text \<open>
  Claim C8. The claim asks that a 2-letter code that is no state, such as \<open>XX\<close>, be
  rejected. The schema of the state is the length 2 and the upper-casing, with no list of
  codes: the signup of the repository's test with the state \<open>XX\<close> succeeds and stores it.
\<close>

theorem signup_accepts_unknown_state:
  assumes "zod_email E ''bad@example.com''" and "dateOfBirth_ok E ''1990-01-01''"
    and "''bad@example.com'' \<notin> user_email ` set (users db)"
    and "jwt_sign E (next_id (map user_id (users db))) (clock E) \<notin>
           session_token ` set (sessions db)"
  shows "\<exists>db' r. signup E db (test_signup ''bad@example.com'' ''XX'') = Inr (db', r) \<and>
           user_state (auth_user r) = ''XX'' \<and>
           ''XX'' \<in> user_state ` set (users db')"
proof -
  have v: "signup_issues E (test_signup ''bad@example.com'' ''XX'') = []"
    using assms(1,2) by (simp add: test_signup_issues)
  have e: "su_email (test_signup ''bad@example.com'' ''XX'') = ''bad@example.com''"
    "su_state (test_signup ''bad@example.com'' ''XX'') = ''XX''"
    by (simp_all add: test_signup_def)
  from signup_creates_user [OF v, of db] assms(3,4) e case_examples
  obtain db' r u where
    "signup E db (test_signup ''bad@example.com'' ''XX'') = Inr (db', r)"
    "users db' = users db @ [u]" "auth_user r = PublicUser.truncate u"
    "user_state u = ''XX''"
    by auto
  then show ?thesis by (auto simp: PublicUser.truncate_def)
qed

theorem signup_accepts_unknown_state_witness:
  "zod_email example_env ''bad@example.com'' \<and> dateOfBirth_ok example_env ''1990-01-01'' \<and>
   (\<exists>db' r. signup example_env empty_db (test_signup ''bad@example.com'' ''XX'') = Inr (db', r) \<and>
           user_state (auth_user r) = ''XX'' \<and>
           ''XX'' \<in> user_state ` set (users db'))"
  using signup_accepts_unknown_state [of example_env empty_db] example_env_ok
  by (simp add: empty_db_def)

end
